theory Spec2Isabelle
  imports Complex_Main
begin

section \<open>JavaScript values\<close>

text \<open>
  The client is JavaScript. A string is a sequence of UTF-16 code units; the ASCII
  literals of the source are written with \<open>ascii\<close>, the Chinese ones as their code
  units.
\<close>

type_synonym jsstring = "nat list"

definition ascii :: "string \<Rightarrow> jsstring" where
  "ascii s = map of_char s"

text \<open>
  A number is an IEEE double: not-a-number, the two infinities, or a finite value.
  The finite values are modelled as rationals (every finite double is one) and
  negative zero is identified with zero. Comparison, \<open>Math.max\<close> and \<open>Math.min\<close>
  are exact on doubles; the arithmetic operators, which round, are not defined here.
\<close>

datatype jsnum = NaN | NegInf | Fin rat | PosInf

datatype jsval =
    JUndefined
  | JNull
  | JBool bool
  | JNum jsnum
  | JStr jsstring
  | JObject string  \<comment> \<open>a reference to an object or function, by its name\<close>

text \<open>ToBoolean: what \<open>if (x)\<close>, \<open>!x\<close>, \<open>x ? a : b\<close> and \<open>x || y\<close> test.\<close>

fun truthy :: "jsval \<Rightarrow> bool" where
  "truthy JUndefined = False"
| "truthy JNull = False"
| "truthy (JBool b) = b"
| "truthy (JNum NaN) = False"
| "truthy (JNum (Fin r)) = (r \<noteq> 0)"
| "truthy (JNum _) = True"
| "truthy (JStr s) = (s \<noteq> [])"
| "truthy (JObject _) = True"

text \<open>The relational operators on numbers: every comparison with NaN is false.\<close>

fun js_lt :: "jsnum \<Rightarrow> jsnum \<Rightarrow> bool" where
  "js_lt NaN _ = False"
| "js_lt _ NaN = False"
| "js_lt _ NegInf = False"
| "js_lt NegInf _ = True"
| "js_lt PosInf _ = False"
| "js_lt _ PosInf = True"
| "js_lt (Fin a) (Fin b) = (a < b)"

definition js_gt :: "jsnum \<Rightarrow> jsnum \<Rightarrow> bool" where
  "js_gt a b = js_lt b a"

definition js_le :: "jsnum \<Rightarrow> jsnum \<Rightarrow> bool" where
  "js_le a b = (a \<noteq> NaN \<and> b \<noteq> NaN \<and> \<not> js_lt b a)"

text \<open>\<open>Math.max\<close> and \<open>Math.min\<close> of two numbers: NaN if either is NaN.\<close>

definition Math_max :: "jsnum \<Rightarrow> jsnum \<Rightarrow> jsnum" where
  "Math_max a b = (if a = NaN \<or> b = NaN then NaN else if js_lt a b then b else a)"

definition Math_min :: "jsnum \<Rightarrow> jsnum \<Rightarrow> jsnum" where
  "Math_min a b = (if a = NaN \<or> b = NaN then NaN else if js_lt b a then b else a)"

text \<open>
  A template literal is the sequence of its literal chunks and substituted values;
  the engine's conversion of a substituted value to text is not modelled.
\<close>

datatype piece = Chunk jsstring | Subst jsval

type_synonym template = "piece list"

section \<open>The game page: \<open>src/Game/static/js/game.js\<close>\<close>

subsection \<open>Suspicion and trust bars\<close>

definition createSuspicionBar :: "jsnum \<Rightarrow> template" where
  "createSuspicionBar level =
     (let percentage = Math_min (Fin 100) (Math_max (Fin 0) level)
      in [Chunk (ascii ''<div class=\"progress-bar suspicion\"><div class=\"progress-fill\" style=\"width: ''),
          Subst (JNum percentage),
          Chunk (ascii ''%\"></div></div>'')])"

definition createTrustBar :: "jsnum \<Rightarrow> template" where
  "createTrustBar level =
     (let percentage = Math_min (Fin 100) (Math_max (Fin 0) level)
      in [Chunk (ascii ''<div class=\"progress-bar trust\"><div class=\"progress-fill\" style=\"width: ''),
          Subst (JNum percentage),
          Chunk (ascii ''%\"></div></div>'')])"

text \<open>The value substituted for the width of a rendered bar.\<close>

fun bar_width :: "template \<Rightarrow> jsval" where
  "bar_width [Chunk _, Subst v, Chunk _] = v"
| "bar_width _ = JUndefined"

subsection \<open>Client state\<close>

text \<open>
  The fields of \<open>StockUndercoverGame\<close> and the parts of the page its handlers read
  and write: the values of the form controls, the card elements with their
  \<open>selected\<close> class, the notification elements appended to the body (their removal
  after three seconds is not modelled) and the calls of \<open>socket.emit\<close> in order,
  each with the event's name and the fields of its payload object.
\<close>

type_synonym notification = "jsval \<times> jsstring"

type_synonym socket_message = "jsstring \<times> (jsstring \<times> jsval) list"

record client =
  gameId :: jsstring
  selectedCard :: jsval
  selectedTarget :: jsval
  stock_select :: jsstring
  invest_amount :: jsstring
  sell_amount :: jsstring
  message_input :: jsstring
  card_items :: "(jsval \<times> bool) list"
  player_items :: "(jsval \<times> bool) list"
  notifications :: "notification list"
  emitted :: "socket_message list"

definition showNotification :: "jsval \<Rightarrow> jsstring \<Rightarrow> client \<Rightarrow> client" where
  "showNotification message type st = st\<lparr>notifications := notifications st @ [(message, type)]\<rparr>"

definition emit :: "jsstring \<Rightarrow> (jsstring \<times> jsval) list \<Rightarrow> client \<Rightarrow> client" where
  "emit name payload st = st\<lparr>emitted := emitted st @ [(name, payload)]\<rparr>"

text \<open>The warnings of the game page, as the source writes them.\<close>

definition msg_select_stock :: jsstring where
  "msg_select_stock = [0x8BF7, 0x9009, 0x62E9, 0x80A1, 0x7968]"

definition msg_invalid_invest_amount :: jsstring where
  "msg_invalid_invest_amount =
     [0x8BF7, 0x8F93, 0x5165, 0x6709, 0x6548, 0x7684, 0x6295, 0x8D44, 0x91D1, 0x989D]"

definition msg_invalid_sell_amount :: jsstring where
  "msg_invalid_sell_amount =
     [0x8BF7, 0x8F93, 0x5165, 0x6709, 0x6548, 0x7684, 0x5356, 0x51FA, 0x6570, 0x91CF]"

definition msg_select_card :: jsstring where
  "msg_select_card = [0x8BF7, 0x9009, 0x62E9, 0x8981, 0x4F7F, 0x7528, 0x7684, 0x5361, 0x724C]"

definition msg_select_vote_target :: jsstring where
  "msg_select_vote_target = [0x8BF7, 0x9009, 0x62E9, 0x6295, 0x7968, 0x76EE, 0x6807]"

subsection \<open>Whitespace\<close>

text \<open>
  The code units \<open>String.prototype.trim\<close> removes: WhiteSpace and LineTerminator of
  ECMA-262.
\<close>

definition is_ws :: "nat \<Rightarrow> bool" where
  "is_ws c = (c \<in> {0x9, 0xA, 0xB, 0xC, 0xD, 0x20, 0xA0, 0x1680, 0x2028, 0x2029, 0x202F,
                   0x205F, 0x3000, 0xFEFF} \<or> (0x2000 \<le> c \<and> c \<le> 0x200A))"

definition trim :: "jsstring \<Rightarrow> jsstring" where
  "trim s = rev (dropWhile is_ws (rev (dropWhile is_ws s)))"

subsection \<open>Commands sent to the server\<close>

text \<open>
  \<open>parseFloat\<close> is the engine's; the functions that call it take it as a parameter.
\<close>

definition initializeSocket :: "client \<Rightarrow> client" where
  "initializeSocket st = emit (ascii ''join_game'') [(ascii ''game_id'', JStr (gameId st))] st"

definition makeInvestment :: "(jsstring \<Rightarrow> jsnum) \<Rightarrow> client \<Rightarrow> client" where
  "makeInvestment parseFloat st =
     (let stockSymbol = stock_select st;
          amount = parseFloat (invest_amount st)
      in if \<not> truthy (JStr stockSymbol) then
           showNotification (JStr msg_select_stock) (ascii ''warning'') st
         else if \<not> truthy (JNum amount) \<or> js_le amount (Fin 0) then
           showNotification (JStr msg_invalid_invest_amount) (ascii ''warning'') st
         else
           emit (ascii ''invest'')
             [(ascii ''game_id'', JStr (gameId st)),
              (ascii ''stock_symbol'', JStr stockSymbol),
              (ascii ''amount'', JNum amount),
              (ascii ''action'', JStr (ascii ''buy''))] st)"

definition sellStock :: "(jsstring \<Rightarrow> jsnum) \<Rightarrow> client \<Rightarrow> client" where
  "sellStock parseFloat st =
     (let stockSymbol = stock_select st;
          amount = parseFloat (sell_amount st)
      in if \<not> truthy (JStr stockSymbol) then
           showNotification (JStr msg_select_stock) (ascii ''warning'') st
         else if \<not> truthy (JNum amount) \<or> js_le amount (Fin 0) then
           showNotification (JStr msg_invalid_sell_amount) (ascii ''warning'') st
         else
           emit (ascii ''invest'')
             [(ascii ''game_id'', JStr (gameId st)),
              (ascii ''stock_symbol'', JStr stockSymbol),
              (ascii ''amount'', JNum amount),
              (ascii ''action'', JStr (ascii ''sell''))] st)"

definition useCard :: "client \<Rightarrow> client" where
  "useCard st =
     (if \<not> truthy (selectedCard st) then
        showNotification (JStr msg_select_card) (ascii ''warning'') st
      else
        emit (ascii ''use_card'')
          [(ascii ''game_id'', JStr (gameId st)),
           (ascii ''card_id'', selectedCard st),
           (ascii ''target_player_id'', selectedTarget st)] st)"

definition sendMessage :: "client \<Rightarrow> client" where
  "sendMessage st =
     (let message = trim (message_input st)
      in if \<not> truthy (JStr message) then st
         else (emit (ascii ''send_message'')
                 [(ascii ''game_id'', JStr (gameId st)),
                  (ascii ''message'', JStr message)] st)\<lparr>message_input := []\<rparr>)"

definition vote :: "client \<Rightarrow> client" where
  "vote st =
     (if \<not> truthy (selectedTarget st) then
        showNotification (JStr msg_select_vote_target) (ascii ''warning'') st
      else
        emit (ascii ''vote'')
          [(ascii ''game_id'', JStr (gameId st)),
           (ascii ''target_player_id'', selectedTarget st)] st)"

definition nextPhase :: "client \<Rightarrow> client" where
  "nextPhase st = emit (ascii ''next_phase'') [(ascii ''game_id'', JStr (gameId st))] st"

subsection \<open>Selection and form helpers\<close>

text \<open>
  \<open>selectCard\<close> and \<open>selectPlayer\<close> get the clicked element; here it is the element's
  position among the \<open>.card-item\<close> (\<open>.player-item\<close>) elements.
\<close>

definition selectCard :: "nat \<Rightarrow> client \<Rightarrow> client" where
  "selectCard i st =
     (let cleared = map (\<lambda>(c, _). (c, False)) (card_items st)
      in st\<lparr>card_items := cleared[i := (fst (cleared ! i), True)],
            selectedCard := fst (cleared ! i)\<rparr>)"

definition selectPlayer :: "nat \<Rightarrow> client \<Rightarrow> client" where
  "selectPlayer i st =
     (let cleared = map (\<lambda>(p, _). (p, False)) (player_items st)
      in st\<lparr>player_items := cleared[i := (fst (cleared ! i), True)],
            selectedTarget := fst (cleared ! i)\<rparr>)"

definition clearInvestmentForm :: "client \<Rightarrow> client" where
  "clearInvestmentForm st = st\<lparr>invest_amount := [], sell_amount := []\<rparr>"

definition clearCardSelection :: "client \<Rightarrow> client" where
  "clearCardSelection st =
     st\<lparr>card_items := map (\<lambda>(c, _). (c, False)) (card_items st), selectedCard := JNull\<rparr>"

subsection \<open>Result events from the server\<close>

record result_payload =
  success :: jsval
  message :: jsval

definition on_investment_result :: "result_payload \<Rightarrow> client \<Rightarrow> client" where
  "on_investment_result data st =
     (let st1 = showNotification (message data)
                  (if truthy (success data) then ascii ''success'' else ascii ''error'') st
      in if truthy (success data) then clearInvestmentForm st1 else st1)"

definition on_card_use_result :: "result_payload \<Rightarrow> client \<Rightarrow> client" where
  "on_card_use_result data st =
     (let st1 = showNotification (message data)
                  (if truthy (success data) then ascii ''success'' else ascii ''error'') st
      in if truthy (success data) then clearCardSelection st1 else st1)"

definition on_vote_result :: "result_payload \<Rightarrow> client \<Rightarrow> client" where
  "on_vote_result data st =
     showNotification (message data)
       (if truthy (success data) then ascii ''success'' else ascii ''error'') st"

subsection \<open>The page as a transition system\<close>

text \<open>
  The listeners \<open>initializeUI\<close> and \<open>initializeSocket\<close> register, as one dispatcher.
  The listeners of \<open>game_state_update\<close>, \<open>new_message\<close>, \<open>phase_change\<close> and
  \<open>game_end\<close> only render and never call \<open>socket.emit\<close>; they are left out.
  \<open>Edit\<close> is the user changing the value of a form control.
\<close>

datatype control = StockSelect | InvestAmount | SellAmount | MessageInput

datatype event =
    InvestBtn
  | SellBtn
  | UseCardBtn
  | SendMessageBtn
  | MessageKeypress jsstring
  | VoteBtn
  | NextPhaseBtn
  | CardClick nat
  | PlayerClick nat
  | Edit control jsstring
  | Investment_result result_payload
  | Card_use_result result_payload
  | Vote_result result_payload

fun edit :: "control \<Rightarrow> jsstring \<Rightarrow> client \<Rightarrow> client" where
  "edit StockSelect v st = st\<lparr>stock_select := v\<rparr>"
| "edit InvestAmount v st = st\<lparr>invest_amount := v\<rparr>"
| "edit SellAmount v st = st\<lparr>sell_amount := v\<rparr>"
| "edit MessageInput v st = st\<lparr>message_input := v\<rparr>"

fun step :: "(jsstring \<Rightarrow> jsnum) \<Rightarrow> event \<Rightarrow> client \<Rightarrow> client" where
  "step parseFloat InvestBtn st = makeInvestment parseFloat st"
| "step parseFloat SellBtn st = sellStock parseFloat st"
| "step parseFloat UseCardBtn st = useCard st"
| "step parseFloat SendMessageBtn st = sendMessage st"
| "step parseFloat (MessageKeypress key) st = (if key = ascii ''Enter'' then sendMessage st else st)"
| "step parseFloat VoteBtn st = vote st"
| "step parseFloat NextPhaseBtn st = nextPhase st"
| "step parseFloat (CardClick i) st = (if i < length (card_items st) then selectCard i st else st)"
| "step parseFloat (PlayerClick i) st = (if i < length (player_items st) then selectPlayer i st else st)"
| "step parseFloat (Edit c v) st = edit c v st"
| "step parseFloat (Investment_result data) st = on_investment_result data st"
| "step parseFloat (Card_use_result data) st = on_card_use_result data st"
| "step parseFloat (Vote_result data) st = on_vote_result data st"

fun run :: "(jsstring \<Rightarrow> jsnum) \<Rightarrow> event list \<Rightarrow> client \<Rightarrow> client" where
  "run parseFloat [] st = st"
| "run parseFloat (e # es) st = run parseFloat es (step parseFloat e st)"

text \<open>
  The constructor on a freshly loaded page \<open>page\<close>: it sets the fields, opens a new
  socket (nothing emitted yet) and joins the game's room.
\<close>

definition constructor :: "jsstring \<Rightarrow> client \<Rightarrow> client" where
  "constructor gid page =
     initializeSocket
       (page\<lparr>gameId := gid, selectedCard := JNull, selectedTarget := JNull, emitted := []\<rparr>)"

subsection \<open>A page and a parser for the examples\<close>

text \<open>
  A freshly loaded page with empty controls, and the values of the engine's
  \<open>parseFloat\<close> on the strings the examples type into the amount fields (every other
  string is taken as unparsable there).
\<close>

definition blank_page :: client where
  "blank_page =
     \<lparr>gameId = [], selectedCard = JNull, selectedTarget = JNull, stock_select = [],
      invest_amount = [], sell_amount = [], message_input = [], card_items = [],
      player_items = [], notifications = [], emitted = []\<rparr>"

definition sample_parseFloat :: "jsstring \<Rightarrow> jsnum" where
  "sample_parseFloat s =
     (if s = ascii ''10'' then Fin 10
      else if s = ascii ''0.5'' then Fin (1 / 2)
      else if s = ascii ''0'' then Fin 0
      else if s = ascii ''-3'' then Fin (- 3)
      else NaN)"

subsection \<open>The \<open>invest\<close> message of the interface\<close>

text \<open>
  The specification's \<open>invest(game_id, stock_symbol, amount, action)\<close>: the message
  with exactly these four fields, and what it means for a message named \<open>invest\<close> to
  have them with an action of \<open>buy\<close> or \<open>sell\<close>.
\<close>

definition invest_message :: "jsstring \<Rightarrow> jsstring \<Rightarrow> jsnum \<Rightarrow> string \<Rightarrow> socket_message" where
  "invest_message gid stock_symbol amount act =
     (ascii ''invest'',
      [(ascii ''game_id'', JStr gid),
       (ascii ''stock_symbol'', JStr stock_symbol),
       (ascii ''amount'', JNum amount),
       (ascii ''action'', JStr (ascii act))])"

definition is_invest :: "socket_message \<Rightarrow> bool" where
  "is_invest m = (fst m = ascii ''invest'')"

definition invest_shape :: "socket_message \<Rightarrow> bool" where
  "invest_shape m =
     (map fst (snd m) = [ascii ''game_id'', ascii ''stock_symbol'', ascii ''amount'', ascii ''action'']
      \<and> (map_of (snd m) (ascii ''action'') = Some (JStr (ascii ''buy''))
         \<or> map_of (snd m) (ascii ''action'') = Some (JStr (ascii ''sell''))))"

subsection \<open>Price change of a stock\<close>

text \<open>
  The operators \<open>-\<close>, \<open>/\<close> and \<open>*\<close> on numbers are the engine's: IEEE 754 double
  arithmetic, which rounds its results, overflows to an infinity and never raises (a
  zero divisor gives an infinity or NaN). \<open>calculatePriceChange\<close> takes them as a
  parameter.
\<close>

record arithmetic =
  js_sub :: "jsnum \<Rightarrow> jsnum \<Rightarrow> jsnum"
  js_div :: "jsnum \<Rightarrow> jsnum \<Rightarrow> jsnum"
  js_mul :: "jsnum \<Rightarrow> jsnum \<Rightarrow> jsnum"

text \<open>
  The fields of a stock \<open>calculatePriceChange\<close> reads. \<open>price_history\<close> is \<open>None\<close>
  when the property is absent (or null), and the array otherwise.
\<close>

record stock =
  current_price :: jsnum
  price_history :: "jsnum list option"

definition calculatePriceChange :: "arithmetic \<Rightarrow> stock \<Rightarrow> jsnum" where
  "calculatePriceChange ops stock =
     (case price_history stock of
        None \<Rightarrow> Fin 0
      | Some history \<Rightarrow>
          if length history < 2 then Fin 0
          else
            (let currentPrice = current_price stock;
                 previousPrice = history ! (length history - 2)
             in js_mul ops (js_div ops (js_sub ops currentPrice previousPrice) previousPrice)
                  (Fin 100)))"

text \<open>
  The values of the engine's operators at the operands of the examples, where every
  result is exact in binary floating point: \<open>150 - 100\<close>, \<open>50 / 100\<close>, \<open>0.5 * 100\<close> and
  \<open>75 - 100\<close>, \<open>-25 / 100\<close>, \<open>-0.25 * 100\<close> (no other operands are used there).
\<close>

definition sample_arithmetic :: arithmetic where
  "sample_arithmetic =
     \<lparr>js_sub = (\<lambda>a b. if a = Fin 150 \<and> b = Fin 100 then Fin 50
                      else if a = Fin 75 \<and> b = Fin 100 then Fin (- 25)
                      else NaN),
      js_div = (\<lambda>a b. if a = Fin 50 \<and> b = Fin 100 then Fin (1 / 2)
                      else if a = Fin (- 25) \<and> b = Fin 100 then Fin (- 1 / 4)
                      else NaN),
      js_mul = (\<lambda>a b. if a = Fin (1 / 2) \<and> b = Fin 100 then Fin 50
                      else if a = Fin (- 1 / 4) \<and> b = Fin 100 then Fin (- 25)
                      else NaN)\<rparr>"

subsection \<open>Phase labels\<close>

text \<open>
  \<open>phaseTexts\<close> is an object literal: its own properties in source order. Reading
  \<open>phaseTexts[phase]\<close> looks the key up among the own properties and then in the
  object's prototype, \<open>Object.prototype\<close>, whose standard properties (ECMA-262, with
  Annex B) are listed by name; a key found in neither reads as \<open>undefined\<close>.
\<close>

definition phaseTexts :: "(jsstring \<times> jsval) list" where
  "phaseTexts =
     [(ascii ''waiting'', JStr [0x7B49, 0x5F85, 0x5F00, 0x59CB]),
      (ascii ''investment'', JStr [0x6295, 0x8D44, 0x9636, 0x6BB5]),
      (ascii ''discussion'', JStr [0x8BA8, 0x8BBA, 0x9636, 0x6BB5]),
      (ascii ''voting'', JStr [0x6295, 0x7968, 0x9636, 0x6BB5]),
      (ascii ''game_end'', JStr [0x6E38, 0x620F, 0x7ED3, 0x675F])]"

definition Object_prototype :: "(jsstring \<times> jsval) list" where
  "Object_prototype =
     [(ascii ''constructor'', JObject ''Object''),
      (ascii ''hasOwnProperty'', JObject ''Object.prototype.hasOwnProperty''),
      (ascii ''isPrototypeOf'', JObject ''Object.prototype.isPrototypeOf''),
      (ascii ''propertyIsEnumerable'', JObject ''Object.prototype.propertyIsEnumerable''),
      (ascii ''toLocaleString'', JObject ''Object.prototype.toLocaleString''),
      (ascii ''toString'', JObject ''Object.prototype.toString''),
      (ascii ''valueOf'', JObject ''Object.prototype.valueOf''),
      (ascii ''__proto__'', JObject ''Object.prototype''),
      (ascii ''__defineGetter__'', JObject ''Object.prototype.__defineGetter__''),
      (ascii ''__defineSetter__'', JObject ''Object.prototype.__defineSetter__''),
      (ascii ''__lookupGetter__'', JObject ''Object.prototype.__lookupGetter__''),
      (ascii ''__lookupSetter__'', JObject ''Object.prototype.__lookupSetter__'')]"

definition get_property :: "(jsstring \<times> jsval) list \<Rightarrow> jsstring \<Rightarrow> jsval" where
  "get_property own key =
     (case map_of own key of
        Some v \<Rightarrow> v
      | None \<Rightarrow> (case map_of Object_prototype key of Some v \<Rightarrow> v | None \<Rightarrow> JUndefined))"

definition getPhaseText :: "jsstring \<Rightarrow> jsval" where
  "getPhaseText phase =
     (let label = get_property phaseTexts phase
      in if truthy label then label else JStr phase)"

section \<open>The lobby page: \<open>src/unnamed/part_000\<close>\<close>

text \<open>
  \<open>parseInt\<close> of a string with no radix given (ECMA-262): leading whitespace is
  skipped, a sign is read, a prefix \<open>0x\<close> or \<open>0X\<close> selects radix 16, and the longest
  run of digits of the radix is the value; with no digit the result is NaN. (A value
  beyond \<open>2^53\<close> is rounded to a double by the engine; here it stays exact.)
\<close>

definition digit_val :: "nat \<Rightarrow> nat option" where
  "digit_val c =
     (if 48 \<le> c \<and> c \<le> 57 then Some (c - 48)
      else if 97 \<le> c \<and> c \<le> 122 then Some (c - 87)
      else if 65 \<le> c \<and> c \<le> 90 then Some (c - 55)
      else None)"

definition is_digit :: "nat \<Rightarrow> nat \<Rightarrow> bool" where
  "is_digit R c = (case digit_val c of Some d \<Rightarrow> d < R | None \<Rightarrow> False)"

definition digits_value :: "nat \<Rightarrow> jsstring \<Rightarrow> nat" where
  "digits_value R Z = foldl (\<lambda>acc c. acc * R + (case digit_val c of Some d \<Rightarrow> d | None \<Rightarrow> 0)) 0 Z"

definition parseInt :: "jsstring \<Rightarrow> jsnum" where
  "parseInt string =
     (let S = dropWhile is_ws string;
          negative = (take 1 S = ascii ''-'');
          S1 = (if take 1 S = ascii ''+'' \<or> take 1 S = ascii ''-'' then drop 1 S else S);
          hex = (take 2 S1 = ascii ''0x'' \<or> take 2 S1 = ascii ''0X'');
          R = (if hex then 16 else 10);
          S2 = (if hex then drop 2 S1 else S1);
          Z = takeWhile (is_digit R) S2
      in if Z = [] then NaN
         else Fin ((if negative then - 1 else 1) * of_nat (digits_value R Z)))"

text \<open>
  The lobby, as far as \<open>createGame\<close> reads and writes it: the values of the two
  controls of the create form, the notifications shown, the requests sent with
  \<open>fetch\<close> (the URL and the object given to \<open>JSON.stringify\<close>) and the address the
  page navigated to, if it did.
\<close>

record lobby =
  create_player_name :: jsstring
  max_players :: jsstring
  lobby_notifications :: "notification list"
  requests :: "(jsstring \<times> (jsstring \<times> jsval) list) list"
  location :: "template option"

text \<open>
  What awaiting the request gives: the request or the decoding of its answer fails
  (the \<open>catch\<close> branch), or the answer is an object, of which the handler reads the
  properties \<open>error\<close> and \<open>game_id\<close>.
\<close>

datatype fetch_outcome = Rejected | Answered jsval jsval

definition lobbyNotification :: "jsval \<Rightarrow> jsstring \<Rightarrow> lobby \<Rightarrow> lobby" where
  "lobbyNotification msg type st =
     st\<lparr>lobby_notifications := lobby_notifications st @ [(msg, type)]\<rparr>"

definition msg_enter_player_name :: jsstring where
  "msg_enter_player_name = [0x8BF7, 0x8F93, 0x5165, 0x73A9, 0x5BB6, 0x540D, 0x79F0]"

definition msg_player_count_range :: jsstring where
  "msg_player_count_range =
     [0x73A9, 0x5BB6, 0x6570, 0x91CF, 0x5FC5, 0x987B, 0x5728, 0x0033, 0x002D, 0x0038,
      0x4EBA, 0x4E4B, 0x95F4]"

definition msg_create_failed :: jsstring where
  "msg_create_failed =
     [0x521B, 0x5EFA, 0x6E38, 0x620F, 0x5931, 0x8D25, 0xFF0C, 0x8BF7, 0x91CD, 0x8BD5]"

definition createGame :: "fetch_outcome \<Rightarrow> lobby \<Rightarrow> lobby" where
  "createGame outcome st =
     (let playerName = trim (create_player_name st);
          maxPlayers = parseInt (max_players st)
      in if \<not> truthy (JStr playerName) then
           lobbyNotification (JStr msg_enter_player_name) (ascii ''warning'') st
         else if js_lt maxPlayers (Fin 3) \<or> js_gt maxPlayers (Fin 8) then
           lobbyNotification (JStr msg_player_count_range) (ascii ''warning'') st
         else
           (let st1 = st\<lparr>requests := requests st @
                        [(ascii ''/api/create_game'',
                          [(ascii ''player_name'', JStr playerName),
                           (ascii ''max_players'', JNum maxPlayers)])]\<rparr>
            in case outcome of
                 Rejected \<Rightarrow> lobbyNotification (JStr msg_create_failed) (ascii ''error'') st1
               | Answered data_error data_game_id \<Rightarrow>
                   if truthy data_error then lobbyNotification data_error (ascii ''error'') st1
                   else st1\<lparr>location := Some [Chunk (ascii ''/game/''), Subst data_game_id]\<rparr>))"

text \<open>A freshly loaded lobby page with empty controls, for the examples.\<close>

definition blank_lobby :: lobby where
  "blank_lobby =
     \<lparr>create_player_name = [], max_players = [], lobby_notifications = [], requests = [],
      location = None\<rparr>"

section \<open>The game engine behind the client\<close>

text \<open>
  The client only sends commands and renders snapshots; the engine that decides
  them runs on the server and is not among the source files. The definitions of this
  section follow the words of the specification (sections 3, 4 and 7).
\<close>

type_synonym player_id = string

type_synonym symbol = string

text \<open>
  Modelled from the spec: the phases of a round (glossary) and the failures the engine
  reports (sections 4 and 7); the server's declarations are absent from the sources.
\<close>

datatype phase = Waiting | Investment | Discussion | Voting | Game_end

datatype engine_error =
    ValidationError
  | StateError
  | InsufficientFunds
  | InsufficientHoldings
  | NotFoundError
  | InvalidPhase

text \<open>
  Modelled from the spec: the player record of the data model (the server's; absent
  from the sources). Money is a decimal, a holding a non-negative integer per symbol.
\<close>

record player =
  player_id :: player_id
  money :: rat
  holdings :: "symbol \<Rightarrow> nat"
  is_alive :: bool

text \<open>
  Modelled from the spec: the stock record of the server's market (absent from the
  sources): the current price, the earlier prices and the traded volume.
\<close>

record instrument =
  price :: rat
  history :: "rat list"
  volume :: nat

text \<open>
  Modelled from the spec: the game record of the data model (absent from the
  sources); \<open>votes\<close> maps a target to the set of its voters.
\<close>

record game =
  players :: "player list"
  current_phase :: phase
  round_number :: nat
  stock_market :: "symbol \<rightharpoonup> instrument"
  votes :: "player_id \<Rightarrow> player_id set"

text \<open>
  Modelled from the spec: \<open>StockMarket.buy\<close> (section 4.2; the server's code is
  absent): fails with InsufficientFunds if \<open>amount * current_price > player.money\<close>;
  otherwise debits money, credits the holding and records the order in the volume.
\<close>

definition buy :: "player \<Rightarrow> instrument \<Rightarrow> symbol \<Rightarrow> nat \<Rightarrow> engine_error + player \<times> instrument" where
  "buy p s sy amount =
     (if of_nat amount * price s > money p then Inl InsufficientFunds
      else Inr (p\<lparr>money := money p - of_nat amount * price s,
                  holdings := (holdings p)(sy := holdings p sy + amount)\<rparr>,
                s\<lparr>volume := volume s + amount\<rparr>))"

text \<open>
  Modelled from the spec: \<open>StockMarket.sell\<close> (section 4.2; the server's code is
  absent): fails with InsufficientHoldings if \<open>amount > player.holdings[symbol]\<close>;
  otherwise credits money at the current price and debits the holding.
\<close>

definition sell :: "player \<Rightarrow> instrument \<Rightarrow> symbol \<Rightarrow> nat \<Rightarrow> engine_error + player \<times> instrument" where
  "sell p s sy amount =
     (if amount > holdings p sy then Inl InsufficientHoldings
      else Inr (p\<lparr>money := money p + of_nat amount * price s,
                  holdings := (holdings p)(sy := holdings p sy - amount)\<rparr>,
                s\<lparr>volume := volume s + amount\<rparr>))"

text \<open>
  Modelled from the spec: the action of an \<open>invest\<close> command (section 6), and the
  player registry's lookup and update of a player by id (section 4.3); the server's
  code is absent from the sources.
\<close>

datatype action = Buy | Sell

definition find_player :: "game \<Rightarrow> player_id \<Rightarrow> player option" where
  "find_player g actor = find (\<lambda>p. player_id p = actor) (players g)"

definition put_player :: "player \<Rightarrow> player list \<Rightarrow> player list" where
  "put_player p' ps = map (\<lambda>q. if player_id q = player_id p' then p' else q) ps"

text \<open>
  Modelled from the spec: the \<open>invest\<close> command of the GamePhaseMachine (sections
  4.1 and 6; the server's code is absent). It is rejected with a StateError outside the
  investment phase, with a NotFoundError for an actor who is not a player of the game
  or a symbol the market does not hold, and otherwise delegates to the market. The
  phase is checked first: section 8 gives the StateError for every \<open>invest\<close> issued
  while the phase is \<open>voting\<close>.
\<close>

definition invest :: "game \<Rightarrow> player_id \<Rightarrow> symbol \<Rightarrow> nat \<Rightarrow> action \<Rightarrow> engine_error + game" where
  "invest g actor sy amount act =
     (if current_phase g \<noteq> Investment then Inl StateError
      else
        (case find_player g actor of
           None \<Rightarrow> Inl NotFoundError
         | Some p \<Rightarrow>
             (case stock_market g sy of
                None \<Rightarrow> Inl NotFoundError
              | Some s \<Rightarrow>
                  (case (case act of Buy \<Rightarrow> buy p s sy amount | Sell \<Rightarrow> sell p s sy amount) of
                     Inl e \<Rightarrow> Inl e
                   | Inr (p', s') \<Rightarrow>
                       Inr (g\<lparr>players := put_player p' (players g),
                              stock_market := (stock_market g)(sy \<mapsto> s')\<rparr>)))))"

text \<open>
  Modelled from the spec: the command boundary (sections 4.1 and 7; the server's code
  is absent). The engine keeps one game per id; a command for an unknown id fails with
  a NotFoundError, a rejected command leaves the games as they were, and the caller
  gets \<open>{success, message}\<close>, here the reply.
\<close>

datatype reply = Success | Failure engine_error

definition invest_command ::
  "(string \<rightharpoonup> game) \<Rightarrow> string \<Rightarrow> player_id \<Rightarrow> symbol \<Rightarrow> nat \<Rightarrow> action \<Rightarrow> reply \<times> (string \<rightharpoonup> game)" where
  "invest_command games gid actor sy amount act =
     (case games gid of
        None \<Rightarrow> (Failure NotFoundError, games)
      | Some g \<Rightarrow>
          (case invest g actor sy amount act of
             Inl e \<Rightarrow> (Failure e, games)
           | Inr g' \<Rightarrow> (Success, games(gid \<mapsto> g'))))"

text \<open>
  Modelled from the spec: \<open>VoteTally.cast\<close> (section 4.5; the server's code is
  absent): fails with InvalidPhase outside the voting phase; otherwise the voter's
  earlier vote, if any, is overwritten by the new one.
\<close>

definition cast :: "game \<Rightarrow> player_id \<Rightarrow> player_id \<Rightarrow> engine_error + game" where
  "cast g voter target =
     (if current_phase g \<noteq> Voting then Inl InvalidPhase
      else Inr (g\<lparr>votes := (\<lambda>t. if t = target then insert voter (votes g t)
                                  else votes g t - {voter})\<rparr>))"

text \<open>
  Modelled from the spec: the votes of one voting phase cast in order, stopping at the
  first failure, and the tally read at phase close: the number of voters per target.
\<close>

fun cast_all :: "game \<Rightarrow> (player_id \<times> player_id) list \<Rightarrow> engine_error + game" where
  "cast_all g [] = Inr g"
| "cast_all g ((voter, target) # cs) =
     (case cast g voter target of Inl e \<Rightarrow> Inl e | Inr g' \<Rightarrow> cast_all g' cs)"

definition tally :: "game \<Rightarrow> player_id \<Rightarrow> nat" where
  "tally g target = card (votes g target)"

text \<open>
  A game for the examples: three players and one stock at 12.50, in the given phase,
  with no vote cast.
\<close>

definition sample_game :: "phase \<Rightarrow> game" where
  "sample_game ph =
     \<lparr>players =
        [\<lparr>player_id = ''alice'', money = 1000, holdings = (\<lambda>_. 0), is_alive = True\<rparr>,
         \<lparr>player_id = ''bob'', money = 500, holdings = (\<lambda>_. 0)(''ACME'' := 4), is_alive = True\<rparr>,
         \<lparr>player_id = ''carol'', money = 20, holdings = (\<lambda>_. 0), is_alive = True\<rparr>],
      current_phase = ph,
      round_number = 1,
      stock_market = [''ACME'' \<mapsto> \<lparr>price = 25 / 2, history = [12, 25 / 2], volume = 0\<rparr>],
      votes = (\<lambda>_. {})\<rparr>"

section \<open>Properties\<close>

subsection \<open>Strings and numbers\<close>

lemma ascii_eq_iff [simp]: "ascii s = ascii t \<longleftrightarrow> s = t"
  by (simp add: ascii_def inj_map_eq_map [OF inj_of_char])

lemma ascii_eq_Nil [simp]: "ascii s = [] \<longleftrightarrow> s = []"
  by (simp add: ascii_def)

lemma js_le_Fin [simp]: "js_le (Fin a) (Fin b) \<longleftrightarrow> a \<le> b"
  by (auto simp: js_le_def)

lemma clamp_range:
  "level \<noteq> NaN \<Longrightarrow>
     js_le (Fin 0) (Math_min (Fin 100) (Math_max (Fin 0) level)) \<and>
     js_le (Math_min (Fin 100) (Math_max (Fin 0) level)) (Fin 100)"
  by (cases level) (auto simp: Math_min_def Math_max_def js_le_def)

lemma clamp_cases:
  "level \<noteq> NaN \<Longrightarrow>
     Math_min (Fin 100) (Math_max (Fin 0) level) =
       (if js_lt level (Fin 0) then Fin 0 else if js_lt (Fin 100) level then Fin 100 else level)"
  by (cases level) (auto simp: Math_min_def Math_max_def js_le_def)

subsection \<open>The bars show a clamped level\<close>

text \<open>
  Claim C1. The levels the bars are rendered from are numbers of a decoded snapshot,
  and decoding JSON gives no NaN. For every such number \<open>level\<close>, the infinities
  included, the width substituted into the suspicion bar and into the trust bar is
  \<open>Math.min(100, Math.max(0, level))\<close>: 0 for a level below 0, 100 for a level above
  100 and the level itself otherwise, so it lies in [0, 100].
\<close>

theorem bar_width_clamped:
  "level \<noteq> NaN \<Longrightarrow>
     bar_width (createSuspicionBar level) = JNum (Math_min (Fin 100) (Math_max (Fin 0) level)) \<and>
     bar_width (createTrustBar level) = JNum (Math_min (Fin 100) (Math_max (Fin 0) level)) \<and>
     Math_min (Fin 100) (Math_max (Fin 0) level) =
       (if js_lt level (Fin 0) then Fin 0 else if js_lt (Fin 100) level then Fin 100 else level) \<and>
     js_le (Fin 0) (Math_min (Fin 100) (Math_max (Fin 0) level)) \<and>
     js_le (Math_min (Fin 100) (Math_max (Fin 0) level)) (Fin 100)"
  using clamp_range [of level] clamp_cases [of level]
  by (simp add: createSuspicionBar_def createTrustBar_def)

text \<open>The bars at 150, at -5, at 42.5 and at infinity.\<close>

theorem bar_width_clamped_witness:
  "bar_width (createSuspicionBar (Fin 150)) = JNum (Fin 100) \<and>
   bar_width (createTrustBar (Fin (- 5))) = JNum (Fin 0) \<and>
   bar_width (createSuspicionBar (Fin (85 / 2))) = JNum (Fin (85 / 2)) \<and>
   bar_width (createTrustBar PosInf) = JNum (Fin 100) \<and>
   js_le (Fin 0) (Fin 100)"
  using bar_width_clamped [of "Fin 150"] bar_width_clamped [of "Fin (- 5)"]
    bar_width_clamped [of "Fin (85 / 2)"] bar_width_clamped [of PosInf]
  by (simp add: Math_min_def Math_max_def)

text \<open>
  The one number left out: \<open>Math.max\<close> and \<open>Math.min\<close> return NaN when an argument
  is NaN, so a direct call with NaN, which no snapshot holds, passes it through.
\<close>

lemma bar_width_NaN:
  "bar_width (createSuspicionBar NaN) = JNum NaN \<and>
   bar_width (createTrustBar NaN) = JNum NaN \<and>
   \<not> js_le (Fin 0) NaN \<and> \<not> js_le NaN (Fin 100)"
  by (simp add: createSuspicionBar_def createTrustBar_def Math_min_def Math_max_def js_le_def)

subsection \<open>Messages of the game page\<close>

lemma emitted_showNotification [simp]: "emitted (showNotification m t st) = emitted st"
  by (simp add: showNotification_def)

lemma emitted_emit [simp]: "emitted (emit n p st) = emitted st @ [(n, p)]"
  by (simp add: emit_def)

lemma makeInvestment_cases:
  "makeInvestment parseFloat st =
     (if stock_select st \<noteq> [] \<and> js_gt (parseFloat (invest_amount st)) (Fin 0)
      then emit (ascii ''invest'')
             [(ascii ''game_id'', JStr (gameId st)),
              (ascii ''stock_symbol'', JStr (stock_select st)),
              (ascii ''amount'', JNum (parseFloat (invest_amount st))),
              (ascii ''action'', JStr (ascii ''buy''))] st
      else showNotification
             (JStr (if stock_select st = [] then msg_select_stock else msg_invalid_invest_amount))
             (ascii ''warning'') st)"
  by (cases "parseFloat (invest_amount st)")
     (auto simp: makeInvestment_def Let_def js_gt_def js_le_def)

lemma sellStock_cases:
  "sellStock parseFloat st =
     (if stock_select st \<noteq> [] \<and> js_gt (parseFloat (sell_amount st)) (Fin 0)
      then emit (ascii ''invest'')
             [(ascii ''game_id'', JStr (gameId st)),
              (ascii ''stock_symbol'', JStr (stock_select st)),
              (ascii ''amount'', JNum (parseFloat (sell_amount st))),
              (ascii ''action'', JStr (ascii ''sell''))] st
      else showNotification
             (JStr (if stock_select st = [] then msg_select_stock else msg_invalid_sell_amount))
             (ascii ''warning'') st)"
  by (cases "parseFloat (sell_amount st)")
     (auto simp: sellStock_def Let_def js_gt_def js_le_def)

lemma step_other_invest:
  "e \<noteq> InvestBtn \<Longrightarrow> e \<noteq> SellBtn \<Longrightarrow>
     filter is_invest (emitted (step parseFloat e st)) = filter is_invest (emitted st)"
proof (cases e)
  case (Edit c v)
  then show ?thesis by (cases c) simp_all
qed (simp_all add: useCard_def sendMessage_def vote_def nextPhase_def selectCard_def
       selectPlayer_def on_investment_result_def on_card_use_result_def on_vote_result_def
       clearInvestmentForm_def clearCardSelection_def Let_def is_invest_def)

lemma invest_shape_message:
  "act = ''buy'' \<or> act = ''sell'' \<Longrightarrow> invest_shape (invest_message gid sy amount act)"
  by (auto simp: invest_shape_def invest_message_def)

lemma emit_invest_shape:
  assumes "\<forall>m \<in> set (emitted st). is_invest m \<longrightarrow> invest_shape m"
    and "act = ''buy'' \<or> act = ''sell''"
  shows "\<forall>m \<in> set (emitted (emit (ascii ''invest'')
             [(ascii ''game_id'', JStr gid),
              (ascii ''stock_symbol'', JStr sy),
              (ascii ''amount'', JNum amount),
              (ascii ''action'', JStr (ascii act))] st)). is_invest m \<longrightarrow> invest_shape m"
  using assms invest_shape_message [of act gid sy amount]
  by (auto simp: invest_message_def)

lemma step_shape:
  assumes "\<forall>m \<in> set (emitted st). is_invest m \<longrightarrow> invest_shape m"
  shows "\<forall>m \<in> set (emitted (step parseFloat e st)). is_invest m \<longrightarrow> invest_shape m"
proof (cases "e = InvestBtn \<or> e = SellBtn")
  case True
  then show ?thesis
  proof
    assume "e = InvestBtn"
    then show ?thesis
      using assms emit_invest_shape [OF assms, of "''buy''"]
      by (simp add: makeInvestment_cases)
  next
    assume "e = SellBtn"
    then show ?thesis
      using assms emit_invest_shape [OF assms, of "''sell''"]
      by (simp add: sellStock_cases)
  qed
next
  case False
  then have "filter is_invest (emitted (step parseFloat e st)) = filter is_invest (emitted st)"
    by (simp add: step_other_invest)
  then have "set (filter is_invest (emitted (step parseFloat e st))) = set (filter is_invest (emitted st))"
    by simp
  then show ?thesis using assms by auto
qed

lemma run_shape:
  "\<forall>m \<in> set (emitted st). is_invest m \<longrightarrow> invest_shape m \<Longrightarrow>
     \<forall>m \<in> set (emitted (run parseFloat es st)). is_invest m \<longrightarrow> invest_shape m"
proof (induction es arbitrary: st)
  case Nil
  then show ?case by simp
next
  case (Cons e es)
  show ?case
    using Cons.IH [OF step_shape [OF Cons.prems]] by simp
qed

lemma constructor_shape:
  "\<forall>m \<in> set (emitted (constructor gid page)). is_invest m \<longrightarrow> invest_shape m"
  by (simp add: constructor_def initializeSocket_def is_invest_def)

text \<open>
  Claim C2. \<open>makeInvestment\<close> emits nothing or one \<open>invest\<close> message with exactly the
  fields \<open>game_id\<close>, \<open>stock_symbol\<close>, \<open>amount\<close>, \<open>action\<close> and the action \<open>buy\<close>;
  \<open>sellStock\<close> likewise with the action \<open>sell\<close>; no other handler adds an \<open>invest\<close>
  message; so after any sequence of events on a new page, every \<open>invest\<close> message the
  client has emitted has these four fields and an action of \<open>buy\<close> or \<open>sell\<close>.
\<close>

theorem invest_messages:
  "(emitted (makeInvestment parseFloat st) = emitted st \<or>
    emitted (makeInvestment parseFloat st) =
      emitted st @ [invest_message (gameId st) (stock_select st) (parseFloat (invest_amount st)) ''buy''])
   \<and> (emitted (sellStock parseFloat st) = emitted st \<or>
    emitted (sellStock parseFloat st) =
      emitted st @ [invest_message (gameId st) (stock_select st) (parseFloat (sell_amount st)) ''sell''])
   \<and> (e \<noteq> InvestBtn \<and> e \<noteq> SellBtn \<longrightarrow>
        filter is_invest (emitted (step parseFloat e st)) = filter is_invest (emitted st))
   \<and> (\<forall>m \<in> set (emitted (run parseFloat es (constructor gid page))). is_invest m \<longrightarrow> invest_shape m)"
proof -
  have buy: "emitted (makeInvestment parseFloat st) = emitted st \<or>
    emitted (makeInvestment parseFloat st) =
      emitted st @ [invest_message (gameId st) (stock_select st) (parseFloat (invest_amount st)) ''buy'']"
    by (simp add: makeInvestment_cases invest_message_def)
  have sell: "emitted (sellStock parseFloat st) = emitted st \<or>
    emitted (sellStock parseFloat st) =
      emitted st @ [invest_message (gameId st) (stock_select st) (parseFloat (sell_amount st)) ''sell'']"
    by (simp add: sellStock_cases invest_message_def)
  have other: "e \<noteq> InvestBtn \<and> e \<noteq> SellBtn \<longrightarrow>
        filter is_invest (emitted (step parseFloat e st)) = filter is_invest (emitted st)"
    by (simp add: step_other_invest)
  have inv: "\<forall>m \<in> set (emitted (run parseFloat es (constructor gid page))). is_invest m \<longrightarrow> invest_shape m"
    by (rule run_shape [OF constructor_shape])
  from buy sell other inv show ?thesis by blast
qed


text \<open>
  A session: a stock is chosen, 10 bought, 0.5 sold, a sale of -3 refused, the phase
  advanced. Both \<open>invest\<close> messages have the shape.
\<close>

theorem invest_messages_witness:
  "emitted (run sample_parseFloat
      [Edit StockSelect (ascii ''ACME''), Edit InvestAmount (ascii ''10''), InvestBtn,
       Edit SellAmount (ascii ''0.5''), SellBtn, Edit SellAmount (ascii ''-3''), SellBtn, NextPhaseBtn]
      (constructor (ascii ''g1'') blank_page)) =
     [(ascii ''join_game'', [(ascii ''game_id'', JStr (ascii ''g1''))]),
      invest_message (ascii ''g1'') (ascii ''ACME'') (Fin 10) ''buy'',
      invest_message (ascii ''g1'') (ascii ''ACME'') (Fin (1 / 2)) ''sell'',
      (ascii ''next_phase'', [(ascii ''game_id'', JStr (ascii ''g1''))])]
   \<and> invest_shape (invest_message (ascii ''g1'') (ascii ''ACME'') (Fin 10) ''buy'')
   \<and> invest_shape (invest_message (ascii ''g1'') (ascii ''ACME'') (Fin (1 / 2)) ''sell'')"
proof -
  let ?es = "[Edit StockSelect (ascii ''ACME''), Edit InvestAmount (ascii ''10''), InvestBtn,
       Edit SellAmount (ascii ''0.5''), SellBtn, Edit SellAmount (ascii ''-3''), SellBtn, NextPhaseBtn]"
  have run: "emitted (run sample_parseFloat ?es (constructor (ascii ''g1'') blank_page)) =
     [(ascii ''join_game'', [(ascii ''game_id'', JStr (ascii ''g1''))]),
      invest_message (ascii ''g1'') (ascii ''ACME'') (Fin 10) ''buy'',
      invest_message (ascii ''g1'') (ascii ''ACME'') (Fin (1 / 2)) ''sell'',
      (ascii ''next_phase'', [(ascii ''game_id'', JStr (ascii ''g1''))])]"
    by (simp add: constructor_def initializeSocket_def blank_page_def makeInvestment_cases
          sellStock_cases nextPhase_def sample_parseFloat_def js_gt_def invest_message_def
          emit_def showNotification_def)
  have all: "\<forall>m \<in> set (emitted (run sample_parseFloat ?es (constructor (ascii ''g1'') blank_page))).
               is_invest m \<longrightarrow> invest_shape m"
    using invest_messages [of sample_parseFloat blank_page NextPhaseBtn ?es "ascii ''g1''" blank_page]
    by blast
  show ?thesis
    using all unfolding run by (simp add: is_invest_def invest_message_def)
qed

subsection \<open>Result events\<close>

text \<open>
  Claim C3. On \<open>investment_result\<close> and on \<open>card_use_result\<close> the client shows one
  notification with the payload's message: of type \<open>success\<close> when the \<open>success\<close>
  field is truthy (for the boolean of the interface: when it is \<open>true\<close>) and of type
  \<open>error\<close> otherwise. On success the two amount fields are emptied (the card
  selection is cleared); on failure nothing but the notification changes: the amount
  fields, the selected card and the cards' \<open>selected\<close> marks are as before.
\<close>

theorem result_events:
  "(truthy (success data) \<longrightarrow>
      on_investment_result data st =
        st\<lparr>notifications := notifications st @ [(message data, ascii ''success'')],
           invest_amount := [], sell_amount := []\<rparr>
      \<and> on_card_use_result data st =
        st\<lparr>notifications := notifications st @ [(message data, ascii ''success'')],
           card_items := map (\<lambda>(c, _). (c, False)) (card_items st), selectedCard := JNull\<rparr>)
   \<and> (\<not> truthy (success data) \<longrightarrow>
      on_investment_result data st =
        st\<lparr>notifications := notifications st @ [(message data, ascii ''error'')]\<rparr>
      \<and> on_card_use_result data st =
        st\<lparr>notifications := notifications st @ [(message data, ascii ''error'')]\<rparr>
      \<and> invest_amount (on_investment_result data st) = invest_amount st
      \<and> sell_amount (on_investment_result data st) = sell_amount st
      \<and> selectedCard (on_card_use_result data st) = selectedCard st
      \<and> card_items (on_card_use_result data st) = card_items st)
   \<and> (success data = JBool True \<longrightarrow> truthy (success data))
   \<and> (success data = JBool False \<longrightarrow> \<not> truthy (success data))"
  by (simp add: on_investment_result_def on_card_use_result_def showNotification_def
        clearInvestmentForm_def clearCardSelection_def Let_def)


text \<open>A successful and a failed result of each kind, on a filled form and a selected card.\<close>

theorem result_events_witness:
  "on_investment_result \<lparr>success = JBool True, message = JStr (ascii ''bought'')\<rparr>
       (blank_page\<lparr>invest_amount := ascii ''10'', sell_amount := ascii ''0.5''\<rparr>) =
     blank_page\<lparr>notifications := [(JStr (ascii ''bought''), ascii ''success'')]\<rparr>
   \<and> on_investment_result \<lparr>success = JBool False, message = JStr (ascii ''no funds'')\<rparr>
       (blank_page\<lparr>invest_amount := ascii ''10'', sell_amount := ascii ''0.5''\<rparr>) =
     blank_page\<lparr>invest_amount := ascii ''10'', sell_amount := ascii ''0.5'',
                notifications := [(JStr (ascii ''no funds''), ascii ''error'')]\<rparr>
   \<and> on_card_use_result \<lparr>success = JBool True, message = JStr (ascii ''used'')\<rparr>
       (blank_page\<lparr>card_items := [(JStr (ascii ''c1''), True)], selectedCard := JStr (ascii ''c1'')\<rparr>) =
     blank_page\<lparr>card_items := [(JStr (ascii ''c1''), False)],
                notifications := [(JStr (ascii ''used''), ascii ''success'')]\<rparr>
   \<and> on_card_use_result \<lparr>success = JBool False, message = JStr (ascii ''no card'')\<rparr>
       (blank_page\<lparr>card_items := [(JStr (ascii ''c1''), True)], selectedCard := JStr (ascii ''c1'')\<rparr>) =
     blank_page\<lparr>card_items := [(JStr (ascii ''c1''), True)], selectedCard := JStr (ascii ''c1''),
                notifications := [(JStr (ascii ''no card''), ascii ''error'')]\<rparr>"
  using
    result_events [of "\<lparr>success = JBool True, message = JStr (ascii ''bought'')\<rparr>"
      "blank_page\<lparr>invest_amount := ascii ''10'', sell_amount := ascii ''0.5''\<rparr>"]
    result_events [of "\<lparr>success = JBool False, message = JStr (ascii ''no funds'')\<rparr>"
      "blank_page\<lparr>invest_amount := ascii ''10'', sell_amount := ascii ''0.5''\<rparr>"]
    result_events [of "\<lparr>success = JBool True, message = JStr (ascii ''used'')\<rparr>"
      "blank_page\<lparr>card_items := [(JStr (ascii ''c1''), True)], selectedCard := JStr (ascii ''c1'')\<rparr>"]
    result_events [of "\<lparr>success = JBool False, message = JStr (ascii ''no card'')\<rparr>"
      "blank_page\<lparr>card_items := [(JStr (ascii ''c1''), True)], selectedCard := JStr (ascii ''c1'')\<rparr>"]
  by (simp add: blank_page_def)

subsection \<open>The client-side guard of \<open>invest\<close>\<close>

lemma js_gt_zero [simp]:
  "\<not> js_gt NaN (Fin 0)" "js_gt (Fin r) (Fin 0) \<longleftrightarrow> 0 < r" "js_gt PosInf (Fin 0)" "\<not> js_gt NegInf (Fin 0)"
  by (simp_all add: js_gt_def)

text \<open>
  Claim C9. \<open>makeInvestment\<close> and \<open>sellStock\<close> emit exactly when a stock symbol is
  selected and \<open>parseFloat\<close> of the amount field is greater than 0; the message then
  carries the parsed amount as it is, integer or not. Otherwise (no symbol, or an
  amount that is NaN, zero or negative) nothing is emitted and a warning is shown.
\<close>

theorem invest_guard:
  "(emitted (makeInvestment parseFloat st) \<noteq> emitted st \<longleftrightarrow>
      stock_select st \<noteq> [] \<and> js_gt (parseFloat (invest_amount st)) (Fin 0))
   \<and> (emitted (sellStock parseFloat st) \<noteq> emitted st \<longleftrightarrow>
      stock_select st \<noteq> [] \<and> js_gt (parseFloat (sell_amount st)) (Fin 0))
   \<and> (stock_select st \<noteq> [] \<and> js_gt (parseFloat (invest_amount st)) (Fin 0) \<longrightarrow>
      emitted (makeInvestment parseFloat st) =
        emitted st @ [invest_message (gameId st) (stock_select st) (parseFloat (invest_amount st)) ''buy'']
      \<and> notifications (makeInvestment parseFloat st) = notifications st)
   \<and> (stock_select st \<noteq> [] \<and> js_gt (parseFloat (sell_amount st)) (Fin 0) \<longrightarrow>
      emitted (sellStock parseFloat st) =
        emitted st @ [invest_message (gameId st) (stock_select st) (parseFloat (sell_amount st)) ''sell'']
      \<and> notifications (sellStock parseFloat st) = notifications st)
   \<and> (\<not> (stock_select st \<noteq> [] \<and> js_gt (parseFloat (invest_amount st)) (Fin 0)) \<longrightarrow>
      makeInvestment parseFloat st =
        showNotification
          (JStr (if stock_select st = [] then msg_select_stock else msg_invalid_invest_amount))
          (ascii ''warning'') st)
   \<and> (\<not> (stock_select st \<noteq> [] \<and> js_gt (parseFloat (sell_amount st)) (Fin 0)) \<longrightarrow>
      sellStock parseFloat st =
        showNotification
          (JStr (if stock_select st = [] then msg_select_stock else msg_invalid_sell_amount))
          (ascii ''warning'') st)
   \<and> \<not> js_gt NaN (Fin 0) \<and> \<not> js_gt (Fin 0) (Fin 0) \<and> (r < 0 \<longrightarrow> \<not> js_gt (Fin r) (Fin 0))
   \<and> (0 < r \<longrightarrow> js_gt (Fin r) (Fin 0))"
  by (simp add: makeInvestment_cases sellStock_cases invest_message_def emit_def
        showNotification_def)

text \<open>
  The amount 0.5, not an integer, is sent; the amounts \<open>abc\<close> (NaN), 0 and -3 are
  refused, and so is any amount with no stock selected.
\<close>

theorem invest_guard_witness:
  "emitted (makeInvestment sample_parseFloat
      (blank_page\<lparr>stock_select := ascii ''ACME'', invest_amount := ascii ''0.5''\<rparr>)) =
     [invest_message [] (ascii ''ACME'') (Fin (1 / 2)) ''buy'']
   \<and> (1 / 2 :: rat) \<notin> \<int>
   \<and> emitted (sellStock sample_parseFloat
      (blank_page\<lparr>stock_select := ascii ''ACME'', sell_amount := ascii ''10''\<rparr>)) =
     [invest_message [] (ascii ''ACME'') (Fin 10) ''sell'']
   \<and> emitted (makeInvestment sample_parseFloat
      (blank_page\<lparr>stock_select := ascii ''ACME'', invest_amount := ascii ''abc''\<rparr>)) = []
   \<and> emitted (makeInvestment sample_parseFloat
      (blank_page\<lparr>stock_select := ascii ''ACME'', invest_amount := ascii ''0''\<rparr>)) = []
   \<and> emitted (sellStock sample_parseFloat
      (blank_page\<lparr>stock_select := ascii ''ACME'', sell_amount := ascii ''-3''\<rparr>)) = []
   \<and> emitted (makeInvestment sample_parseFloat
      (blank_page\<lparr>invest_amount := ascii ''10''\<rparr>)) = []"
proof -
  have frac: "(1 / 2 :: rat) \<notin> \<int>"
  proof
    assume "(1 / 2 :: rat) \<in> \<int>"
    then obtain k :: int where "(1 / 2 :: rat) = of_int k" by (auto elim: Ints_cases)
    then have "(1 :: rat) = of_int (2 * k)" by simp
    then have "(1 :: int) = 2 * k" using of_int_eq_iff [of 1 "2 * k", where ?'a = rat] by simp
    then show False by presburger
  qed
  show ?thesis
    using frac
      invest_guard [of sample_parseFloat
        "blank_page\<lparr>stock_select := ascii ''ACME'', invest_amount := ascii ''0.5''\<rparr>"]
      invest_guard [of sample_parseFloat
        "blank_page\<lparr>stock_select := ascii ''ACME'', sell_amount := ascii ''10''\<rparr>"]
      invest_guard [of sample_parseFloat
        "blank_page\<lparr>stock_select := ascii ''ACME'', invest_amount := ascii ''abc''\<rparr>"]
      invest_guard [of sample_parseFloat
        "blank_page\<lparr>stock_select := ascii ''ACME'', invest_amount := ascii ''0''\<rparr>"]
      invest_guard [of sample_parseFloat
        "blank_page\<lparr>stock_select := ascii ''ACME'', sell_amount := ascii ''-3''\<rparr>"]
      invest_guard [of sample_parseFloat "blank_page\<lparr>invest_amount := ascii ''10''\<rparr>"]
    by (simp add: blank_page_def sample_parseFloat_def)
qed

subsection \<open>Price change\<close>

lemma second_to_last: "2 \<le> length h \<Longrightarrow> h ! (length h - 2) = last (butlast h)"
proof -
  assume len: "2 \<le> length h"
  then have ne: "butlast h \<noteq> []" by (cases h) (auto split: if_splits)
  have "last (butlast h) = butlast h ! (length (butlast h) - 1)" by (rule last_conv_nth [OF ne])
  also have "\<dots> = butlast h ! (length h - 2)" by (simp add: numeral_2_eq_2)
  also have "\<dots> = h ! (length h - 2)" using len by (simp add: nth_butlast)
  finally show ?thesis by simp
qed

lemma positive_not_zero: "js_lt (Fin 0) x \<Longrightarrow> x \<noteq> Fin 0 \<and> x \<noteq> NaN"
  by (cases x) auto

text \<open>
  Claim C4. \<open>calculatePriceChange\<close> returns 0 for a stock whose \<open>price_history\<close> is
  absent or has fewer than two entries. For a history of at least two entries it
  returns \<open>((current_price - previous) / previous) * 100\<close>, computed with the engine's
  operators, where \<open>previous\<close> is the second-to-last entry of the history; when all
  entries are positive, that divisor is positive, so it is neither zero nor NaN.
\<close>

theorem price_change:
  "(price_history stock = None \<longrightarrow> calculatePriceChange ops stock = Fin 0)
   \<and> (price_history stock = Some h \<and> length h < 2 \<longrightarrow> calculatePriceChange ops stock = Fin 0)
   \<and> (price_history stock = Some h \<and> 2 \<le> length h \<longrightarrow>
        calculatePriceChange ops stock =
          js_mul ops
            (js_div ops (js_sub ops (current_price stock) (last (butlast h))) (last (butlast h)))
            (Fin 100))
   \<and> (price_history stock = Some h \<and> 2 \<le> length h \<and> (\<forall>x \<in> set h. js_lt (Fin 0) x) \<longrightarrow>
        js_lt (Fin 0) (last (butlast h)) \<and> last (butlast h) \<noteq> Fin 0 \<and> last (butlast h) \<noteq> NaN)"
proof -
  have none: "price_history stock = None \<longrightarrow> calculatePriceChange ops stock = Fin 0"
    by (simp add: calculatePriceChange_def)
  have short: "price_history stock = Some h \<and> length h < 2 \<longrightarrow> calculatePriceChange ops stock = Fin 0"
    by (simp add: calculatePriceChange_def)
  have long: "price_history stock = Some h \<and> 2 \<le> length h \<longrightarrow>
        calculatePriceChange ops stock =
          js_mul ops
            (js_div ops (js_sub ops (current_price stock) (last (butlast h))) (last (butlast h)))
            (Fin 100)"
  proof (intro impI, elim conjE)
    assume h: "price_history stock = Some h" "2 \<le> length h"
    have "calculatePriceChange ops stock =
          js_mul ops
            (js_div ops (js_sub ops (current_price stock) (h ! (length h - 2))) (h ! (length h - 2)))
            (Fin 100)"
      using h by (simp add: calculatePriceChange_def Let_def)
    then show "calculatePriceChange ops stock =
          js_mul ops
            (js_div ops (js_sub ops (current_price stock) (last (butlast h))) (last (butlast h)))
            (Fin 100)"
      by (simp add: second_to_last [OF h(2)])
  qed
  have divisor: "price_history stock = Some h \<and> 2 \<le> length h \<and> (\<forall>x \<in> set h. js_lt (Fin 0) x) \<longrightarrow>
        js_lt (Fin 0) (last (butlast h)) \<and> last (butlast h) \<noteq> Fin 0 \<and> last (butlast h) \<noteq> NaN"
  proof (intro impI, elim conjE)
    assume h: "2 \<le> length h" "\<forall>x \<in> set h. js_lt (Fin 0) x"
    have "length h - 2 < length h" using h(1) by simp
    then have "h ! (length h - 2) \<in> set h" by (rule nth_mem)
    then have "last (butlast h) \<in> set h" by (simp add: second_to_last [OF h(1)])
    then have pos: "js_lt (Fin 0) (last (butlast h))" using h(2) by blast
    then show "js_lt (Fin 0) (last (butlast h)) \<and> last (butlast h) \<noteq> Fin 0 \<and> last (butlast h) \<noteq> NaN"
      using positive_not_zero [OF pos] by simp
  qed
  from none short long divisor show ?thesis by blast
qed

text \<open>
  A rise from 100 to 150 is 50 percent, a fall from 100 to 75 is -25 percent; no
  history and a history of one price give 0.
\<close>

theorem price_change_witness:
  "calculatePriceChange sample_arithmetic
      \<lparr>current_price = Fin 150, price_history = Some [Fin 90, Fin 100, Fin 150]\<rparr> = Fin 50
   \<and> calculatePriceChange sample_arithmetic
      \<lparr>current_price = Fin 75, price_history = Some [Fin 100, Fin 75]\<rparr> = Fin (- 25)
   \<and> calculatePriceChange sample_arithmetic
      \<lparr>current_price = Fin 110, price_history = None\<rparr> = Fin 0
   \<and> calculatePriceChange sample_arithmetic
      \<lparr>current_price = Fin 110, price_history = Some [Fin 110]\<rparr> = Fin 0
   \<and> js_lt (Fin 0) (last (butlast [Fin 90, Fin 100, Fin 150]))"
  using
    price_change [of "\<lparr>current_price = Fin 150, price_history = Some [Fin 90, Fin 100, Fin 150]\<rparr>"
      sample_arithmetic "[Fin 90, Fin 100, Fin 150]"]
    price_change [of "\<lparr>current_price = Fin 75, price_history = Some [Fin 100, Fin 75]\<rparr>"
      sample_arithmetic "[Fin 100, Fin 75]"]
    price_change [of "\<lparr>current_price = Fin 110, price_history = None\<rparr>" sample_arithmetic "[]"]
    price_change [of "\<lparr>current_price = Fin 110, price_history = Some [Fin 110]\<rparr>"
      sample_arithmetic "[Fin 110]"]
  by (simp add: sample_arithmetic_def)

subsection \<open>Phase labels\<close>

text \<open>The five phases have their labels.\<close>

lemma getPhaseText_labels:
  "getPhaseText (ascii ''waiting'') = JStr [0x7B49, 0x5F85, 0x5F00, 0x59CB]"
  "getPhaseText (ascii ''investment'') = JStr [0x6295, 0x8D44, 0x9636, 0x6BB5]"
  "getPhaseText (ascii ''discussion'') = JStr [0x8BA8, 0x8BBA, 0x9636, 0x6BB5]"
  "getPhaseText (ascii ''voting'') = JStr [0x6295, 0x7968, 0x9636, 0x6BB5]"
  "getPhaseText (ascii ''game_end'') = JStr [0x6E38, 0x620F, 0x7ED3, 0x675F]"
  by (simp_all add: getPhaseText_def get_property_def phaseTexts_def)

text \<open>
  A string that is neither one of the five phases nor the name of a property of
  \<open>Object.prototype\<close> is returned unchanged.
\<close>

lemma getPhaseText_other:
  "phase \<notin> fst ` set phaseTexts \<Longrightarrow> phase \<notin> fst ` set Object_prototype \<Longrightarrow>
     getPhaseText phase = JStr phase"
  by (simp add: getPhaseText_def get_property_def map_of_eq_None_iff [THEN iffD2])

lemma getPhaseText_lobby: "getPhaseText (ascii ''lobby'') = JStr (ascii ''lobby'')"
  by (rule getPhaseText_other) (simp_all add: phaseTexts_def Object_prototype_def)

text \<open>
  Claim C5 fails on the code. \<open>constructor\<close> is not one of the five phases, yet
  \<open>phaseTexts['constructor']\<close> is the function inherited from \<open>Object.prototype\<close>,
  which is truthy: \<open>getPhaseText\<close> returns that function and not the input string.
  The same holds for \<open>toString\<close> and the other inherited names.
\<close>

theorem getPhaseText_inherited:
  "getPhaseText (ascii ''constructor'') = JObject ''Object''
   \<and> getPhaseText (ascii ''constructor'') \<noteq> JStr (ascii ''constructor'')
   \<and> getPhaseText (ascii ''toString'') = JObject ''Object.prototype.toString''
   \<and> ascii ''constructor'' \<notin> fst ` set phaseTexts"
  by (simp add: getPhaseText_def get_property_def phaseTexts_def Object_prototype_def)

subsection \<open>Creating a game\<close>

lemma parseInt_cases: "parseInt s = NaN \<or> (\<exists>n. parseInt s = Fin n)"
  by (simp add: parseInt_def Let_def)

lemma requests_lobbyNotification [simp]: "requests (lobbyNotification m t st) = requests st"
  by (simp add: lobbyNotification_def)

lemma createGame_requests:
  "requests (createGame outcome st) =
     (if trim (create_player_name st) \<noteq> []
         \<and> \<not> js_lt (parseInt (max_players st)) (Fin 3) \<and> \<not> js_gt (parseInt (max_players st)) (Fin 8)
      then requests st @
        [(ascii ''/api/create_game'',
          [(ascii ''player_name'', JStr (trim (create_player_name st))),
           (ascii ''max_players'', JNum (parseInt (max_players st)))])]
      else requests st)"
  by (cases outcome) (auto simp: createGame_def Let_def)

text \<open>
  When \<open>createGame\<close> sends the request: the trimmed name is not empty and the parsed
  number is NaN or lies between 3 and 8.
\<close>

lemma createGame_sent_iff:
  "requests (createGame outcome st) \<noteq> requests st \<longleftrightarrow>
     trim (create_player_name st) \<noteq> [] \<and>
     (parseInt (max_players st) = NaN \<or>
      (\<exists>n. parseInt (max_players st) = Fin n \<and> 3 \<le> n \<and> n \<le> 8))"
  using parseInt_cases [of "max_players st"]
  by (auto simp: createGame_requests js_gt_def)

lemma Nil_eq_ascii [simp]: "[] = ascii s \<longleftrightarrow> s = []"
  by (simp add: ascii_def)

lemma ascii_Cons: "ascii (c # cs) = of_char c # ascii cs"
  by (simp add: ascii_def)

lemma parseInt_empty: "parseInt [] = NaN"
  by (simp add: parseInt_def Let_def)

lemma trim_examples:
  "trim (ascii ''Al'') = ascii ''Al''" "trim (ascii ''  '') = []" "trim (ascii '' Al  '') = ascii ''Al''"
  by (simp_all add: trim_def ascii_def is_ws_def)

lemma parseInt_examples:
  "parseInt (ascii ''2'') = Fin 2" "parseInt (ascii ''5'') = Fin 5" "parseInt (ascii ''9'') = Fin 9"
  "parseInt (ascii ''abc'') = NaN" "parseInt (ascii '' -0x1F'') = Fin (- 31)" "parseInt (ascii ''7.9'') = Fin 7"
  by (simp_all add: parseInt_def Let_def ascii_def is_ws_def is_digit_def digit_val_def digits_value_def)

text \<open>
  Claim C10 fails on the code. With a player name and a \<open>max-players\<close> field that
  \<open>parseInt\<close> cannot read (here the empty field), the parsed value is NaN; both
  \<open>maxPlayers < 3\<close> and \<open>maxPlayers > 8\<close> are false for NaN, so the request is sent,
  with \<open>max_players\<close> NaN, and no warning is shown, although NaN is not between 3
  and 8.
\<close>

theorem createGame_unparsable:
  "parseInt [] = NaN
   \<and> \<not> (js_le (Fin 3) (parseInt []) \<and> js_le (parseInt []) (Fin 8))
   \<and> requests (createGame outcome (blank_lobby\<lparr>create_player_name := ascii ''Al''\<rparr>)) =
       [(ascii ''/api/create_game'',
         [(ascii ''player_name'', JStr (ascii ''Al'')), (ascii ''max_players'', JNum NaN)])]
   \<and> lobby_notifications
        (createGame (Answered JUndefined (JStr (ascii ''g7'')))
           (blank_lobby\<lparr>create_player_name := ascii ''Al''\<rparr>)) = []"
proof -
  have sent: "requests (createGame outcome (blank_lobby\<lparr>create_player_name := ascii ''Al''\<rparr>)) =
       [(ascii ''/api/create_game'',
         [(ascii ''player_name'', JStr (ascii ''Al'')), (ascii ''max_players'', JNum NaN)])]"
    by (simp add: createGame_requests parseInt_empty blank_lobby_def trim_examples js_gt_def)
  have quiet: "lobby_notifications
        (createGame (Answered JUndefined (JStr (ascii ''g7'')))
           (blank_lobby\<lparr>create_player_name := ascii ''Al''\<rparr>)) = []"
    by (simp add: createGame_def Let_def parseInt_empty blank_lobby_def trim_examples js_gt_def)
  show ?thesis
    using sent quiet by (simp add: parseInt_empty js_le_def)
qed

text \<open>For a number that is read, the range check works: 2 and 9 are refused, 5 is sent.\<close>

lemma createGame_examples:
  "requests (createGame outcome (blank_lobby\<lparr>create_player_name := ascii ''Al'', max_players := ascii ''2''\<rparr>)) = []"
  "requests (createGame outcome (blank_lobby\<lparr>create_player_name := ascii ''Al'', max_players := ascii ''9''\<rparr>)) = []"
  "requests (createGame outcome (blank_lobby\<lparr>create_player_name := ascii ''Al'', max_players := ascii ''5''\<rparr>)) =
     [(ascii ''/api/create_game'',
         [(ascii ''player_name'', JStr (ascii ''Al'')), (ascii ''max_players'', JNum (Fin 5))])]"
  "requests (createGame outcome (blank_lobby\<lparr>create_player_name := ascii ''  '', max_players := ascii ''5''\<rparr>)) = []"
  by (simp_all add: createGame_requests parseInt_examples blank_lobby_def trim_examples js_gt_def)

section \<open>Properties of the engine\<close>

subsection \<open>Invest outside the investment phase\<close>

text \<open>
  Claim C6. For every game in the voting phase, an \<open>invest\<close> command (whoever the
  actor, whatever the symbol, amount and action) fails with a StateError and leaves
  the games, so every player's money and holdings, exactly as they were.
\<close>

theorem invest_rejected_in_voting:
  "games gid = Some g \<Longrightarrow> current_phase g = Voting \<Longrightarrow>
     invest g actor sy amount act = Inl StateError
     \<and> invest_command games gid actor sy amount act = (Failure StateError, games)
     \<and> snd (invest_command games gid actor sy amount act) gid = Some g"
  by (simp add: invest_command_def invest_def)

text \<open>A purchase and a sale issued in the voting phase of the example game.\<close>

theorem invest_rejected_in_voting_witness:
  "invest_command [''g1'' \<mapsto> sample_game Voting] ''g1'' ''alice'' ''ACME'' 8 Buy =
     (Failure StateError, [''g1'' \<mapsto> sample_game Voting])
   \<and> invest_command [''g1'' \<mapsto> sample_game Voting] ''g1'' ''bob'' ''ACME'' 4 Sell =
     (Failure StateError, [''g1'' \<mapsto> sample_game Voting])
   \<and> current_phase (sample_game Voting) = Voting"
  using
    invest_rejected_in_voting [of "[''g1'' \<mapsto> sample_game Voting]" "''g1''" "sample_game Voting"
      "''alice''" "''ACME''" 8 Buy]
    invest_rejected_in_voting [of "[''g1'' \<mapsto> sample_game Voting]" "''g1''" "sample_game Voting"
      "''bob''" "''ACME''" 4 Sell]
  by (simp add: sample_game_def)

subsection \<open>One vote per voter\<close>

lemma cast_Inr:
  "cast g v t = Inr g' \<longleftrightarrow>
     current_phase g = Voting \<and>
     g' = g\<lparr>votes := (\<lambda>x. if x = t then insert v (votes g x) else votes g x - {v})\<rparr>"
  by (auto simp: cast_def)

lemma cast_member: "cast g v t = Inr g' \<Longrightarrow> v \<in> votes g' x \<longleftrightarrow> x = t"
  by (auto simp: cast_Inr)

lemma cast_other: "cast g u t = Inr g' \<Longrightarrow> u \<noteq> v \<Longrightarrow> v \<in> votes g' x \<longleftrightarrow> v \<in> votes g x"
  by (auto simp: cast_Inr)

text \<open>Votes of other voters do not change whom a voter is counted against.\<close>

lemma cast_all_others:
  "cast_all g cs = Inr g' \<Longrightarrow> v \<notin> fst ` set cs \<Longrightarrow> v \<in> votes g' x \<longleftrightarrow> v \<in> votes g x"
proof (induction cs arbitrary: g)
  case Nil
  then show ?case by simp
next
  case (Cons c cs)
  obtain u t where c: "c = (u, t)" by (cases c)
  from Cons.prems(1) c obtain g1 where g1: "cast g u t = Inr g1" and rest: "cast_all g1 cs = Inr g'"
    by (auto split: sum.splits)
  from Cons.prems(2) c have "u \<noteq> v" and "v \<notin> fst ` set cs" by auto
  then show ?case
    using Cons.IH [OF rest] cast_other [OF g1] by simp
qed

lemma cast_all_append:
  "cast_all g (cs1 @ cs2) = Inr g' \<Longrightarrow> \<exists>g1. cast_all g cs1 = Inr g1 \<and> cast_all g1 cs2 = Inr g'"
proof (induction cs1 arbitrary: g)
  case Nil
  then show ?case by simp
next
  case (Cons c cs1)
  obtain u t where c: "c = (u, t)" by (cases c)
  from Cons.prems c obtain g0 where g0: "cast g u t = Inr g0" and rest: "cast_all g0 (cs1 @ cs2) = Inr g'"
    by (auto split: sum.splits)
  from Cons.IH [OF rest] show ?case using g0 c by simp
qed

lemma cast_all_last:
  assumes "cast_all g (cs1 @ (v, t) # cs2) = Inr g'" and "v \<notin> fst ` set cs2"
  shows "v \<in> votes g' x \<longleftrightarrow> x = t"
proof -
  from cast_all_append [OF assms(1)] obtain g1 where "cast_all g1 ((v, t) # cs2) = Inr g'"
    by blast
  then obtain g2 where g2: "cast g1 v t = Inr g2" and rest: "cast_all g2 cs2 = Inr g'"
    by (auto split: sum.splits)
  show ?thesis
    using cast_all_others [OF rest assms(2)] cast_member [OF g2] by simp
qed

text \<open>Voting twice leaves the game as the later vote alone would.\<close>

lemma cast_twice:
  assumes "cast g v t1 = Inr g1" and "cast g1 v t2 = Inr g2"
  shows "cast g v t2 = Inr g2"
proof -
  from assms(1) have ph: "current_phase g = Voting"
    and g1: "g1 = g\<lparr>votes := (\<lambda>x. if x = t1 then insert v (votes g x) else votes g x - {v})\<rparr>"
    by (simp_all add: cast_Inr)
  from assms(2) have g2: "g2 = g1\<lparr>votes := (\<lambda>x. if x = t2 then insert v (votes g1 x) else votes g1 x - {v})\<rparr>"
    by (simp add: cast_Inr)
  have "(\<lambda>x. if x = t2 then insert v (votes g1 x) else votes g1 x - {v}) =
        (\<lambda>x. if x = t2 then insert v (votes g x) else votes g x - {v})"
    by (rule ext) (auto simp: g1)
  then have "g2 = g1\<lparr>votes := (\<lambda>x. if x = t2 then insert v (votes g x) else votes g x - {v})\<rparr>"
    using g2 by simp
  then have "g2 = g\<lparr>votes := (\<lambda>x. if x = t2 then insert v (votes g x) else votes g x - {v})\<rparr>"
    by (simp add: g1)
  then show ?thesis using ph by (simp add: cast_Inr)
qed

text \<open>
  Claim C7. A voter who casts two votes in one voting phase is counted exactly once,
  against the target of the later vote: the game after both votes is the game after
  the later vote alone, the set of targets the voter is counted against is that one
  target, and the earlier target, if different, no longer counts the voter. The same
  holds with votes of others before, between and after the two, as long as the voter
  does not vote again.
\<close>

theorem vote_overwritten:
  "(cast g v t1 = Inr g1 \<and> cast g1 v t2 = Inr g2 \<longrightarrow>
      cast g v t2 = Inr g2 \<and> {x. v \<in> votes g2 x} = {t2} \<and> (t1 \<noteq> t2 \<longrightarrow> v \<notin> votes g2 t1)
      \<and> tally g2 t2 = card (insert v (votes g t2)))
   \<and> (cast_all g (cs1 @ (v, t1) # cs2 @ (v, t2) # cs3) = Inr g' \<and> v \<notin> fst ` set cs3 \<longrightarrow>
      {x. v \<in> votes g' x} = {t2} \<and> (t1 \<noteq> t2 \<longrightarrow> v \<notin> votes g' t1))"
proof -
  have direct: "cast g v t1 = Inr g1 \<and> cast g1 v t2 = Inr g2 \<longrightarrow>
      cast g v t2 = Inr g2 \<and> {x. v \<in> votes g2 x} = {t2} \<and> (t1 \<noteq> t2 \<longrightarrow> v \<notin> votes g2 t1)
      \<and> tally g2 t2 = card (insert v (votes g t2))"
  proof (intro impI, elim conjE)
    assume a: "cast g v t1 = Inr g1" and b: "cast g1 v t2 = Inr g2"
    have once: "cast g v t2 = Inr g2" by (rule cast_twice [OF a b])
    have mem: "\<And>x. v \<in> votes g2 x \<longleftrightarrow> x = t2" by (rule cast_member [OF b])
    have "tally g2 t2 = card (insert v (votes g t2))"
      using once by (simp add: tally_def cast_Inr)
    then show "cast g v t2 = Inr g2 \<and> {x. v \<in> votes g2 x} = {t2} \<and> (t1 \<noteq> t2 \<longrightarrow> v \<notin> votes g2 t1)
      \<and> tally g2 t2 = card (insert v (votes g t2))"
      using once mem by auto
  qed
  have general: "cast_all g (cs1 @ (v, t1) # cs2 @ (v, t2) # cs3) = Inr g' \<and> v \<notin> fst ` set cs3 \<longrightarrow>
      {x. v \<in> votes g' x} = {t2} \<and> (t1 \<noteq> t2 \<longrightarrow> v \<notin> votes g' t1)"
  proof (intro impI, elim conjE)
    assume a: "cast_all g (cs1 @ (v, t1) # cs2 @ (v, t2) # cs3) = Inr g'" and b: "v \<notin> fst ` set cs3"
    from a have "cast_all g ((cs1 @ (v, t1) # cs2) @ (v, t2) # cs3) = Inr g'" by simp
    then have "\<And>x. v \<in> votes g' x \<longleftrightarrow> x = t2" using b by (rule cast_all_last)
    then show "{x. v \<in> votes g' x} = {t2} \<and> (t1 \<noteq> t2 \<longrightarrow> v \<notin> votes g' t1)" by auto
  qed
  from direct general show ?thesis by blast
qed


text \<open>
  Alice votes for Bob, Bob for Alice, then Alice for Carol: at the close Bob has no
  vote, Carol one and Alice one.
\<close>

theorem vote_overwritten_witness:
  "(case cast_all (sample_game Voting)
           [(''alice'', ''bob''), (''bob'', ''alice''), (''alice'', ''carol'')] of
      Inl e \<Rightarrow> False
    | Inr g' \<Rightarrow>
        {x. ''alice'' \<in> votes g' x} = {''carol''}
        \<and> tally g' ''bob'' = 0 \<and> tally g' ''carol'' = 1 \<and> tally g' ''alice'' = 1)"
proof -
  let ?cs = "[(''alice'', ''bob''), (''bob'', ''alice''), (''alice'', ''carol'')]"
  obtain g' where g': "cast_all (sample_game Voting) ?cs = Inr g'"
    by (simp add: cast_def sample_game_def)
  have "cast_all (sample_game Voting) ([] @ (''alice'', ''bob'') # [(''bob'', ''alice'')] @ (''alice'', ''carol'') # []) = Inr g'"
    using g' by simp
  then have once: "{x. ''alice'' \<in> votes g' x} = {''carol''}"
    using vote_overwritten [where g = "sample_game Voting" and v = "''alice''" and ?t1.0 = "''bob''"
        and ?t2.0 = "''carol''" and ?cs1.0 = "[]" and ?cs2.0 = "[(''bob'', ''alice'')]"
        and ?cs3.0 = "[]" and g' = g']
    by simp
  have tallies: "tally g' ''bob'' = 0 \<and> tally g' ''carol'' = 1 \<and> tally g' ''alice'' = 1"
    using g' by (auto simp: cast_def sample_game_def tally_def)
  show ?thesis unfolding g' using once tallies by simp
qed

subsection \<open>Buying and selling back\<close>

lemma find_put_player:
  "find (\<lambda>q. player_id q = a) ps = Some p \<Longrightarrow> player_id p' = a \<Longrightarrow>
     find (\<lambda>q. player_id q = a) (put_player p' ps) = Some p'"
  by (induction ps) (auto simp: put_player_def split: if_splits)

lemma find_player_id: "find_player g a = Some p \<Longrightarrow> player_id p = a"
  by (auto simp: find_player_def find_Some_iff)

text \<open>
  Claim C8. If a purchase succeeds, the sale of the same amount of the same stock right
  after it succeeds too (the price is the one of the purchase) and gives the player
  the money, and the holding, of before the purchase.
\<close>

theorem buy_sell_round_trip:
  "invest g actor sy amount Buy = Inr g1 \<Longrightarrow>
     \<exists>p g2 p2. find_player g actor = Some p
       \<and> invest g1 actor sy amount Sell = Inr g2
       \<and> find_player g2 actor = Some p2
       \<and> money p2 = money p
       \<and> holdings p2 sy = holdings p sy
       \<and> map_option price (stock_market g1 sy) = map_option price (stock_market g sy)"
proof -
  assume buy1: "invest g actor sy amount Buy = Inr g1"
  then have ph: "current_phase g = Investment"
    by (auto simp: invest_def split: if_splits)
  from buy1 ph obtain p where p: "find_player g actor = Some p"
    by (auto simp: invest_def split: option.splits)
  from buy1 ph p obtain s where s: "stock_market g sy = Some s"
    by (auto simp: invest_def split: option.splits)
  have id: "player_id p = actor" by (rule find_player_id [OF p])
  define p1 where "p1 = p\<lparr>money := money p - of_nat amount * price s,
                          holdings := (holdings p)(sy := holdings p sy + amount)\<rparr>"
  define s1 where "s1 = s\<lparr>volume := volume s + amount\<rparr>"
  from buy1 ph p s have funds: "\<not> of_nat amount * price s > money p"
    and g1: "g1 = g\<lparr>players := put_player p1 (players g), stock_market := (stock_market g)(sy \<mapsto> s1)\<rparr>"
    by (auto simp: invest_def buy_def p1_def s1_def split: if_splits)
  have id1: "player_id p1 = actor" by (simp add: p1_def id)
  have f1: "find_player g1 actor = Some p1"
    using find_put_player [of actor "players g" p p1] p id1 by (simp add: find_player_def g1)
  have m1: "stock_market g1 sy = Some s1" by (simp add: g1)
  define p2 where "p2 = p1\<lparr>money := money p1 + of_nat amount * price s1,
                           holdings := (holdings p1)(sy := holdings p1 sy - amount)\<rparr>"
  define g2 where "g2 = g1\<lparr>players := put_player p2 (players g1),
                           stock_market := (stock_market g1)(sy \<mapsto> s1\<lparr>volume := volume s1 + amount\<rparr>)\<rparr>"
  have enough: "\<not> amount > holdings p1 sy" by (simp add: p1_def)
  have sell2: "invest g1 actor sy amount Sell = Inr g2"
    using f1 m1 enough ph by (simp add: invest_def sell_def g2_def p2_def g1)
  have id2: "player_id p2 = actor" by (simp add: p2_def id1)
  have f2: "find_player g2 actor = Some p2"
    using find_put_player [of actor "players g1" p1 p2] f1 id2 by (simp add: find_player_def g2_def)
  have money: "money p2 = money p" by (simp add: p2_def p1_def s1_def)
  have hold: "holdings p2 sy = holdings p sy" by (simp add: p2_def p1_def)
  have price: "map_option price (stock_market g1 sy) = map_option price (stock_market g sy)"
    by (simp add: m1 s s1_def)
  from p sell2 f2 money hold price show ?thesis by blast
qed

text \<open>Alice buys 8 shares at 12.50 (1000 becomes 900) and sells them back (1000 again).\<close>

theorem buy_sell_round_trip_witness:
  "(case invest (sample_game Investment) ''alice'' ''ACME'' 8 Buy of
      Inl e \<Rightarrow> False
    | Inr g1 \<Rightarrow>
        map_option money (find_player g1 ''alice'') = Some 900
        \<and> (case invest g1 ''alice'' ''ACME'' 8 Sell of
             Inl e \<Rightarrow> False
           | Inr g2 \<Rightarrow> map_option money (find_player g2 ''alice'') = Some 1000
                        \<and> map_option money (find_player (sample_game Investment) ''alice'') = Some 1000))"
proof -
  obtain g1 where g1: "invest (sample_game Investment) ''alice'' ''ACME'' 8 Buy = Inr g1"
    by (simp add: invest_def buy_def sample_game_def find_player_def)
  have before: "find_player (sample_game Investment) ''alice'' =
      Some \<lparr>player_id = ''alice'', money = 1000, holdings = (\<lambda>_. 0), is_alive = True\<rparr>"
    by (simp add: sample_game_def find_player_def)
  from buy_sell_round_trip [OF g1] before obtain g2 p2 where
    g2: "invest g1 ''alice'' ''ACME'' 8 Sell = Inr g2" and p2: "find_player g2 ''alice'' = Some p2"
    and restored: "money p2 = 1000"
    by auto
  have mid: "map_option money (find_player g1 ''alice'') = Some 900"
    using g1 by (auto simp: invest_def buy_def sample_game_def find_player_def put_player_def)
  show ?thesis unfolding g1 using mid g2 p2 restored before by simp
qed

end
